theory Spec2Isabelle
  imports Main
begin

section \<open>The snake game engine of \<^verbatim>\<open>snake_game.py\<close>\<close>

text \<open>
  The engine is the part of the program that owns the snake, the food, the score and the
  two flags. Drawing, the clock and the translation of key codes are left out. Python
  exceptions are values: a method that mutates its object returns an \<open>outcome\<close>, which
  carries the object as it is when the method returns or when the exception leaves it.
  The one random draw of the program, \<^verbatim>\<open>random.choice\<close>, takes the number drawn as
  an argument.
\<close>

subsection \<open>Constants and data\<close>

definition GRID_WIDTH :: int where
  "GRID_WIDTH = 30"

definition GRID_HEIGHT :: int where
  "GRID_HEIGHT = 22"

datatype Point = Point (x: int) (y: int)

datatype py_error = IndexError

datatype 's outcome = Returns 's | Raises py_error 's

text \<open>The key codes of \<^verbatim>\<open>pygame\<close> the program names.\<close>

datatype key = K_UP | K_w | K_DOWN | K_s | K_LEFT | K_a | K_RIGHT | K_d
  | K_SPACE | K_r | K_ESCAPE

definition DIRECTION_VECTORS :: "(key \<times> Point) list" where
  "DIRECTION_VECTORS =
     [(K_UP, Point 0 (- 1)), (K_w, Point 0 (- 1)),
      (K_DOWN, Point 0 1), (K_s, Point 0 1),
      (K_LEFT, Point (- 1) 0), (K_a, Point (- 1) 0),
      (K_RIGHT, Point 1 0), (K_d, Point 1 0)]"

record Snake =
  body :: "Point list"
  direction :: Point
  pending_direction :: Point
  grow_pending :: int

record Food =
  position :: Point

record SnakeGame =
  snake :: Snake
  food :: Food
  score :: int
  game_over :: bool
  paused :: bool

subsection \<open>Snake\<close>

text \<open>\<^verbatim>\<open>[Point(GRID_WIDTH // 2 + i, GRID_HEIGHT // 2) for i in range(3)]\<close>\<close>

definition Snake_init :: Snake where
  "Snake_init =
     \<lparr>body = map (\<lambda>i. Point (GRID_WIDTH div 2 + i) (GRID_HEIGHT div 2)) [0..2],
      direction = Point (- 1) 0,
      pending_direction = Point (- 1) 0,
      grow_pending = 0\<rparr>"

text \<open>\<^verbatim>\<open>self.body[0]\<close> raises on an empty list.\<close>

definition head :: "Snake \<Rightarrow> py_error + Point" where
  "head s = (case body s of [] \<Rightarrow> Inl IndexError | h # _ \<Rightarrow> Inr h)"

definition set_direction :: "Point \<Rightarrow> Snake \<Rightarrow> Snake" where
  "set_direction d s =
     (if x d = - x (direction s) \<and> y d = - y (direction s) then s
      else s\<lparr>pending_direction := d\<rparr>)"

text \<open>\<^verbatim>\<open>list.pop()\<close>: drops the last element, raises on an empty list.\<close>

definition pop :: "'a list \<Rightarrow> py_error + 'a list" where
  "pop xs = (if xs = [] then Inl IndexError else Inr (butlast xs))"

definition move :: "Snake \<Rightarrow> Snake outcome" where
  "move s =
     (let s1 = s\<lparr>direction := pending_direction s\<rparr> in
      case head s1 of
        Inl e \<Rightarrow> Raises e s1
      | Inr h \<Rightarrow>
          let new_head = Point (x h + x (direction s1)) (y h + y (direction s1));
              s2 = s1\<lparr>body := new_head # body s1\<rparr>
          in if grow_pending s2 > 0
             then Returns (s2\<lparr>grow_pending := grow_pending s2 - 1\<rparr>)
             else (case pop (body s2) of
                     Inl e \<Rightarrow> Raises e s2
                   | Inr b \<Rightarrow> Returns (s2\<lparr>body := b\<rparr>)))"

definition grow :: "int \<Rightarrow> Snake \<Rightarrow> Snake" where
  "grow amount s = s\<lparr>grow_pending := grow_pending s + amount\<rparr>"

text \<open>\<^verbatim>\<open>self.head in self.body[1:]\<close>\<close>

definition hits_self :: "Snake \<Rightarrow> py_error + bool" where
  "hits_self s =
     (case head s of Inl e \<Rightarrow> Inl e | Inr h \<Rightarrow> Inr (h \<in> set (drop 1 (body s))))"

subsection \<open>Food\<close>

text \<open>
  \<^verbatim>\<open>random.choice(seq)\<close> raises \<^verbatim>\<open>IndexError\<close> on an empty sequence and returns
  \<^verbatim>\<open>seq[i]\<close> for a drawn index \<open>i\<close> below the length otherwise. The argument \<open>r\<close> is
  the number the generator draws; every index below the length is \<open>r mod length seq\<close>
  for some \<open>r\<close>.
\<close>

definition random_choice :: "nat \<Rightarrow> 'a list \<Rightarrow> py_error + 'a" where
  "random_choice r xs = (if xs = [] then Inl IndexError else Inr (xs ! (r mod length xs)))"

text \<open>The local \<^verbatim>\<open>available\<close> of \<^verbatim>\<open>_random_position\<close>: columns outermost.\<close>

definition available :: "Point list \<Rightarrow> Point list" where
  "available occupied =
     [Point i j. i \<leftarrow> [0..GRID_WIDTH - 1], j \<leftarrow> [0..GRID_HEIGHT - 1],
                 Point i j \<notin> set occupied]"

definition random_position :: "nat \<Rightarrow> Point list \<Rightarrow> py_error + Point" where
  "random_position r occupied = random_choice r (available occupied)"

definition Food_init :: "nat \<Rightarrow> Point list \<Rightarrow> py_error + Food" where
  "Food_init r occupied =
     (case random_position r occupied of
        Inl e \<Rightarrow> Inl e
      | Inr p \<Rightarrow> Inr \<lparr>position = p\<rparr>)"

definition relocate :: "nat \<Rightarrow> Point list \<Rightarrow> Food \<Rightarrow> Food outcome" where
  "relocate r occupied f =
     (case random_position r occupied of
        Inl e \<Rightarrow> Raises e f
      | Inr p \<Rightarrow> Returns (f\<lparr>position := p\<rparr>))"

subsection \<open>SnakeGame\<close>

definition reset :: "nat \<Rightarrow> SnakeGame \<Rightarrow> SnakeGame outcome" where
  "reset r g =
     (let g1 = g\<lparr>snake := Snake_init\<rparr> in
      case Food_init r (body (snake g1)) of
        Inl e \<Rightarrow> Raises e g1
      | Inr f \<Rightarrow> Returns (g1\<lparr>food := f, score := 0, game_over := False, paused := False\<rparr>))"

definition update :: "nat \<Rightarrow> SnakeGame \<Rightarrow> SnakeGame outcome" where
  "update r g =
     (case move (snake g) of
        Raises e s \<Rightarrow> Raises e (g\<lparr>snake := s\<rparr>)
      | Returns s \<Rightarrow>
          let g1 = g\<lparr>snake := s\<rparr> in
          (case head s of
             Inl e \<Rightarrow> Raises e g1
           | Inr h \<Rightarrow>
               if \<not> (0 \<le> x h \<and> x h < GRID_WIDTH \<and> 0 \<le> y h \<and> y h < GRID_HEIGHT)
               then Returns (g1\<lparr>game_over := True\<rparr>)
               else (case hits_self s of
                       Inl e \<Rightarrow> Raises e g1
                     | Inr True \<Rightarrow> Returns (g1\<lparr>game_over := True\<rparr>)
                     | Inr False \<Rightarrow>
                         if h = position (food g1)
                         then let g2 = g1\<lparr>snake := grow 2 s\<rparr>;
                                  g3 = g2\<lparr>score := score g2 + 10\<rparr>
                              in (case relocate r (body (snake g3)) (food g3) of
                                    Raises e f \<Rightarrow> Raises e (g3\<lparr>food := f\<rparr>)
                                  | Returns f \<Rightarrow> Returns (g3\<lparr>food := f\<rparr>))
                         else Returns g1)))"

text \<open>
  The tick of the loop of \<^verbatim>\<open>run\<close>:
  \<^verbatim>\<open>if not self.game_over and not self.paused: self.update()\<close>
\<close>

definition advance_tick :: "nat \<Rightarrow> SnakeGame \<Rightarrow> SnakeGame outcome" where
  "advance_tick r g =
     (if \<not> game_over g \<and> \<not> paused g then update r g else Returns g)"

subsection \<open>Vocabulary of the properties\<close>

text \<open>The cells of the grid, as the bounds test of \<^verbatim>\<open>update\<close> reads them.\<close>

definition in_grid :: "Point \<Rightarrow> bool" where
  "in_grid p = (0 \<le> x p \<and> x p < GRID_WIDTH \<and> 0 \<le> y p \<and> y p < GRID_HEIGHT)"

text \<open>The vector a direction request is compared with.\<close>

definition opposite :: "Point \<Rightarrow> Point" where
  "opposite p = Point (- x p) (- y p)"

text \<open>The state of the eating scenario.\<close>

definition eating_state :: SnakeGame where
  "eating_state =
     \<lparr>snake = \<lparr>body = [Point 14 11, Point 15 11, Point 16 11],
                direction = Point (- 1) 0,
                pending_direction = Point (- 1) 0,
                grow_pending = 0\<rparr>,
      food = \<lparr>position = Point 13 11\<rparr>,
      score = 0, game_over = False, paused = False\<rparr>"

text \<open>The four direction vectors are the values of \<^verbatim>\<open>DIRECTION_VECTORS\<close>, the only arguments
  \<^verbatim>\<open>handle_events\<close> passes to \<^verbatim>\<open>set_direction\<close>.\<close>

definition unit_vector :: "Point \<Rightarrow> bool" where
  "unit_vector d = (d \<in> snd ` set DIRECTION_VECTORS)"

text \<open>A well-formed pair of directions: both are unit vectors and the pending one is not the
  reverse of the committed one.\<close>

definition directions_ok :: "Snake \<Rightarrow> bool" where
  "directions_ok s =
     (unit_vector (direction s) \<and> unit_vector (pending_direction s)
      \<and> pending_direction s \<noteq> opposite (direction s))"

text \<open>
  The snakes the game can hold: the constructed one, and whatever \<^verbatim>\<open>handle_events\<close>
  (\<open>set_direction\<close> on a value of \<^verbatim>\<open>DIRECTION_VECTORS\<close>) and \<^verbatim>\<open>update\<close> (\<open>move\<close>, then
  possibly \<open>grow 2\<close>) make of it.
\<close>

inductive snake_reachable :: "Snake \<Rightarrow> bool" where
  constructed: "snake_reachable Snake_init"
| turned: "snake_reachable s \<Longrightarrow> (k, d) \<in> set DIRECTION_VECTORS \<Longrightarrow> snake_reachable (set_direction d s)"
| moved: "snake_reachable s \<Longrightarrow> move s = Returns s' \<Longrightarrow> snake_reachable s'"
| fed: "snake_reachable s \<Longrightarrow> snake_reachable (grow 2 s)"

text \<open>A running game whose snake is about to leave the grid on the left, with one cell of
  growth still pending.\<close>

definition wall_state :: SnakeGame where
  "wall_state =
     \<lparr>snake = \<lparr>body = [Point 0 11, Point 1 11, Point 2 11],
                direction = Point (- 1) 0,
                pending_direction = Point (- 1) 0,
                grow_pending = 1\<rparr>,
      food = \<lparr>position = Point 5 5\<rparr>,
      score = 20, game_over = False, paused = False\<rparr>"

text \<open>A snake that fills the grid: it runs down the even columns and up the odd ones. The
  state below has every cell but (0,0) in the body, the head at (0,1) heading up, and the
  food on (0,0), the last free cell.\<close>

definition serpentine_column :: "int \<Rightarrow> Point list" where
  "serpentine_column i =
     (if even i then map (Point i) [0..GRID_HEIGHT - 1]
      else rev (map (Point i) [0..GRID_HEIGHT - 1]))"

definition crowded_body :: "Point list" where
  "crowded_body =
     map (Point 0) [1..GRID_HEIGHT - 1] @ concat (map serpentine_column [1..GRID_WIDTH - 1])"

definition crowded_state :: SnakeGame where
  "crowded_state =
     \<lparr>snake = \<lparr>body = crowded_body,
                direction = Point 0 (- 1),
                pending_direction = Point 0 (- 1),
                grow_pending = 2\<rparr>,
      food = \<lparr>position = Point 0 0\<rparr>,
      score = 3290, game_over = False, paused = False\<rparr>"

section \<open>Properties\<close>

subsection \<open>Food placement\<close>

lemma set_available:
  "set (available occupied) = {p. in_grid p \<and> p \<notin> set occupied}"
proof -
  have "p \<in> set (available occupied) \<longleftrightarrow> in_grid p \<and> p \<notin> set occupied" for p
    by (cases p) (auto simp: available_def in_grid_def)
  then show ?thesis by blast
qed

lemma random_choice_member: "random_choice r xs = Inr p \<Longrightarrow> p \<in> set xs"
  by (auto simp: random_choice_def split: if_splits)

lemma random_choice_nonempty: "xs \<noteq> [] \<Longrightarrow> \<exists>p. random_choice r xs = Inr p"
  by (simp add: random_choice_def)

lemma random_choice_every_index:
  "i < length xs \<Longrightarrow> random_choice i xs = Inr (xs ! i)"
  by (auto simp: random_choice_def)

lemma random_position_free:
  assumes "random_position r occupied = Inr p"
  shows "in_grid p \<and> p \<notin> set occupied"
proof -
  from assms have "p \<in> set (available occupied)"
    unfolding random_position_def by (rule random_choice_member)
  then show ?thesis by (simp add: set_available)
qed

lemma random_position_succeeds:
  assumes "in_grid c" and "c \<notin> set occupied"
  shows "\<exists>p. random_position r occupied = Inr p"
proof -
  from assms have "c \<in> set (available occupied)" by (simp add: set_available)
  then have "available occupied \<noteq> []" by auto
  then show ?thesis unfolding random_position_def by (rule random_choice_nonempty)
qed

lemma random_position_full:
  assumes "\<forall>c. in_grid c \<longrightarrow> c \<in> set occupied"
  shows "random_position r occupied = Inl IndexError"
proof -
  from assms have "set (available occupied) = {}" by (auto simp: set_available)
  then have "available occupied = []" by simp
  then show ?thesis by (simp add: random_position_def random_choice_def)
qed

lemma in_grid_origin: "in_grid (Point 0 0)"
  by (simp add: in_grid_def GRID_WIDTH_def GRID_HEIGHT_def)

text \<open>
  Claim C7. When some cell of the grid is not occupied, \<open>relocate\<close> returns for every
  random draw, and the position it stores is a cell of the grid that is not occupied.
\<close>

theorem relocate_free_cell:
  assumes "in_grid c" and "c \<notin> set occupied"
  shows "\<exists>p. relocate r occupied f = Returns (f\<lparr>position := p\<rparr>)
            \<and> in_grid p \<and> p \<notin> set occupied"
proof -
  from assms obtain p where p: "random_position r occupied = Inr p"
    using random_position_succeeds by blast
  then have "relocate r occupied f = Returns (f\<lparr>position := p\<rparr>)"
    by (simp add: relocate_def)
  with random_position_free [OF p] show ?thesis by blast
qed

theorem relocate_free_cell_witness:
  "in_grid (Point 0 0) \<and> Point 0 0 \<notin> set [Point 13 11, Point 14 11]
   \<and> (\<exists>p. relocate 7 [Point 13 11, Point 14 11] \<lparr>position = Point 13 11\<rparr>
              = Returns (\<lparr>position = Point 13 11\<rparr>\<lparr>position := p\<rparr>)
          \<and> in_grid p \<and> p \<notin> set [Point 13 11, Point 14 11])"
proof -
  have a: "in_grid (Point 0 0)" by (simp add: in_grid_def GRID_WIDTH_def GRID_HEIGHT_def)
  have b: "Point 0 0 \<notin> set [Point 13 11, Point 14 11]" by simp
  from relocate_free_cell [OF a b, of 7 "\<lparr>position = Point 13 11\<rparr>"] a b
  show ?thesis by blast
qed

subsection \<open>The snake\<close>

lemma body_Snake_init: "body Snake_init = [Point 15 11, Point 16 11, Point 17 11]"
  by (simp add: Snake_init_def GRID_WIDTH_def GRID_HEIGHT_def upto.simps)

text \<open>
  Claim C9 as stated fails: the head of the constructed snake is not at the horizontal
  centre plus the body length minus one (that is the tail's column).
\<close>

theorem Snake_init_head_not_offset:
  "head Snake_init \<noteq>
     Inr (Point (GRID_WIDTH div 2 + (int (length (body Snake_init)) - 1)) (GRID_HEIGHT div 2))"
  by (simp add: head_def body_Snake_init GRID_WIDTH_def)

text \<open>
  Claim C9, as the code has it. The constructed snake has three cells in a row on the
  middle line of the grid, head first: the head is at the horizontal centre (offset 0), the
  tail at the centre plus the body length minus one. Both directions are (-1, 0) and no
  growth is pending.
\<close>

theorem Snake_init_layout:
  "body Snake_init =
     [Point (GRID_WIDTH div 2) (GRID_HEIGHT div 2),
      Point (GRID_WIDTH div 2 + 1) (GRID_HEIGHT div 2),
      Point (GRID_WIDTH div 2 + 2) (GRID_HEIGHT div 2)]
   \<and> head Snake_init = Inr (Point (GRID_WIDTH div 2) (GRID_HEIGHT div 2))
   \<and> last (body Snake_init) =
       Point (GRID_WIDTH div 2 + (int (length (body Snake_init)) - 1)) (GRID_HEIGHT div 2)
   \<and> direction Snake_init = Point (- 1) 0
   \<and> pending_direction Snake_init = Point (- 1) 0
   \<and> grow_pending Snake_init = 0"
  by (simp add: head_def body_Snake_init) (simp add: Snake_init_def GRID_WIDTH_def GRID_HEIGHT_def)

lemma unit_vector_iff:
  "unit_vector d \<longleftrightarrow> d = Point 0 (- 1) \<or> d = Point 0 1 \<or> d = Point (- 1) 0 \<or> d = Point 1 0"
  by (auto simp: unit_vector_def DIRECTION_VECTORS_def)

lemma opposite_iff: "d = opposite e \<longleftrightarrow> x d = - x e \<and> y d = - y e"
  by (cases d) (auto simp: opposite_def)

lemma unit_vector_not_self_opposite: "unit_vector d \<Longrightarrow> d \<noteq> opposite d"
  by (auto simp: unit_vector_iff opposite_def)

text \<open>
  Claim C5. For each of the four direction vectors, a request for the reverse of the
  committed direction leaves the snake as it is, and any other request stores the vector as
  the pending direction and changes nothing else. \<open>set_direction\<close> has no error result.
\<close>

theorem set_direction_spec:
  assumes "unit_vector d"
  shows "(d = opposite (direction s) \<longrightarrow> set_direction d s = s)
       \<and> (d \<noteq> opposite (direction s) \<longrightarrow> set_direction d s = s\<lparr>pending_direction := d\<rparr>)"
  by (simp add: set_direction_def opposite_iff)

theorem set_direction_spec_witness:
  "set_direction (Point 1 0) Snake_init = Snake_init
   \<and> set_direction (Point 0 1) Snake_init = Snake_init\<lparr>pending_direction := Point 0 1\<rparr>"
  using set_direction_spec [of "Point 1 0" Snake_init]
    set_direction_spec [of "Point 0 1" Snake_init]
  by (simp add: unit_vector_iff Snake_init_def opposite_def)

lemma move_nonempty:
  assumes "body s = h # t"
  shows "move s =
     Returns (if 0 < grow_pending s
        then s\<lparr>direction := pending_direction s,
               body := Point (x h + x (pending_direction s)) (y h + y (pending_direction s)) # h # t,
               grow_pending := grow_pending s - 1\<rparr>
        else s\<lparr>direction := pending_direction s,
               body := butlast (Point (x h + x (pending_direction s)) (y h + y (pending_direction s)) # h # t)\<rparr>)"
  using assms by (simp add: move_def head_def pop_def Let_def)

lemma move_grow_pending:
  assumes "move s = Returns s'"
  shows "grow_pending s' = (if 0 < grow_pending s then grow_pending s - 1 else grow_pending s)"
  using assms
  by (auto simp: move_def head_def pop_def Let_def split: list.splits if_splits)

text \<open>
  Claim C3. On a snake with a head, \<open>move\<close> commits the pending direction, puts the new
  head (the old head plus the committed direction) in front of the body, and then either
  takes one off a positive \<open>grow_pending\<close> and keeps the tail, so the body is one cell
  longer, or drops the last cell, so the length is unchanged. It returns in both cases
  whatever the new head is: no test on the grid bounds or on the body is made.
\<close>

theorem move_step:
  assumes "body s = h # t"
    and "new_head = Point (x h + x (pending_direction s)) (y h + y (pending_direction s))"
  shows "(0 < grow_pending s \<longrightarrow>
            move s = Returns (s\<lparr>direction := pending_direction s,
                                 body := new_head # body s,
                                 grow_pending := grow_pending s - 1\<rparr>))
       \<and> (\<not> 0 < grow_pending s \<longrightarrow>
            move s = Returns (s\<lparr>direction := pending_direction s,
                                 body := butlast (new_head # body s)\<rparr>))
       \<and> (\<exists>s'. move s = Returns s'
             \<and> length (body s') =
                 (if 0 < grow_pending s then length (body s) + 1 else length (body s)))"
  using assms by (simp add: move_nonempty)

theorem move_step_witness:
  "move \<lparr>body = [Point 0 0, Point 1 0], direction = Point (- 1) 0,
          pending_direction = Point 0 (- 1), grow_pending = 2\<rparr>
     = Returns \<lparr>body = [Point 0 (- 1), Point 0 0, Point 1 0], direction = Point 0 (- 1),
          pending_direction = Point 0 (- 1), grow_pending = 1\<rparr>
   \<and> move \<lparr>body = [Point 0 0, Point 1 0], direction = Point (- 1) 0,
          pending_direction = Point (- 1) 0, grow_pending = 0\<rparr>
     = Returns \<lparr>body = [Point (- 1) 0, Point 0 0], direction = Point (- 1) 0,
          pending_direction = Point (- 1) 0, grow_pending = 0\<rparr>"
  using move_step [of "\<lparr>body = [Point 0 0, Point 1 0], direction = Point (- 1) 0,
          pending_direction = Point 0 (- 1), grow_pending = 2\<rparr>" "Point 0 0" "[Point 1 0]"
          "Point 0 (- 1)"]
    move_step [of "\<lparr>body = [Point 0 0, Point 1 0], direction = Point (- 1) 0,
          pending_direction = Point (- 1) 0, grow_pending = 0\<rparr>" "Point 0 0" "[Point 1 0]"
          "Point (- 1) 0"]
  by simp

lemma directions_ok_move:
  assumes "directions_ok s" and "move s = Returns s' \<or> move s = Raises e s'"
  shows "directions_ok s' \<and> direction s' = pending_direction s
       \<and> direction s' \<noteq> opposite (direction s)"
proof -
  from assms(2) have "direction s' = pending_direction s"
    and "pending_direction s' = pending_direction s"
    by (auto simp: move_def head_def pop_def Let_def split: list.splits if_splits)
  with assms(1) show ?thesis
    by (simp add: directions_ok_def unit_vector_not_self_opposite)
qed

lemma directions_ok_set_direction:
  assumes "directions_ok s" and "unit_vector d"
  shows "directions_ok (set_direction d s)"
  using assms by (simp add: directions_ok_def set_direction_def opposite_iff)

lemma snake_reachable_directions_ok: "snake_reachable s \<Longrightarrow> directions_ok s"
proof (induction rule: snake_reachable.induct)
  case constructed
  show ?case
    by (simp add: directions_ok_def Snake_init_def unit_vector_iff opposite_def)
next
  case (turned s k d)
  then have "unit_vector d" by (force simp: unit_vector_def)
  with turned.IH show ?case by (rule directions_ok_set_direction)
next
  case (moved s s')
  then show ?case using directions_ok_move by blast
next
  case (fed s)
  then show ?case by (simp add: directions_ok_def grow_def)
qed

text \<open>
  Claim C10. The pending direction is never the reverse of the committed one. This holds
  for the constructed snake (both are (-1, 0)); \<open>set_direction\<close> with one of the four
  direction vectors, \<open>grow\<close> and \<open>move\<close> keep it, together with both directions being
  unit vectors; the direction a \<open>move\<close> commits is never the reverse of the one it
  replaces; and so it holds of every snake the game can hold.
\<close>

theorem directions_never_reverse:
  "directions_ok Snake_init
   \<and> direction Snake_init = Point (- 1) 0 \<and> pending_direction Snake_init = Point (- 1) 0
   \<and> (\<forall>s d. directions_ok s \<and> unit_vector d \<longrightarrow> directions_ok (set_direction d s))
   \<and> (\<forall>s n. directions_ok s \<longrightarrow> directions_ok (grow n s))
   \<and> (\<forall>s s' e. directions_ok s \<and> (move s = Returns s' \<or> move s = Raises e s') \<longrightarrow>
         directions_ok s' \<and> direction s' = pending_direction s
         \<and> direction s' \<noteq> opposite (direction s))
   \<and> (\<forall>s. snake_reachable s \<longrightarrow> pending_direction s \<noteq> opposite (direction s))"
proof -
  have "directions_ok Snake_init"
    by (simp add: directions_ok_def Snake_init_def unit_vector_iff opposite_def)
  moreover have "direction Snake_init = Point (- 1) 0"
    and "pending_direction Snake_init = Point (- 1) 0"
    by (simp_all add: Snake_init_def)
  moreover have "directions_ok (grow n s)" if "directions_ok s" for s n
    using that by (simp add: directions_ok_def grow_def)
  moreover have "pending_direction s \<noteq> opposite (direction s)" if "snake_reachable s" for s
    using snake_reachable_directions_ok [OF that] by (simp add: directions_ok_def)
  ultimately show ?thesis
    using directions_ok_set_direction directions_ok_move by blast
qed

theorem directions_never_reverse_witness:
  "directions_ok (set_direction (Point 0 1) Snake_init)
   \<and> directions_ok (grow 2 Snake_init)
   \<and> directions_ok \<lparr>body = [Point 14 11, Point 15 11, Point 16 11], direction = Point (- 1) 0,
                     pending_direction = Point (- 1) 0, grow_pending = 0\<rparr>
   \<and> pending_direction (set_direction (Point 0 1) Snake_init)
       \<noteq> opposite (direction (set_direction (Point 0 1) Snake_init))"
proof -
  have "unit_vector (Point 0 1)" by (simp add: unit_vector_iff)
  moreover have "snake_reachable (set_direction (Point 0 1) Snake_init)"
    by (rule snake_reachable.turned [where k = K_DOWN])
      (simp_all add: snake_reachable.constructed DIRECTION_VECTORS_def)
  moreover have "move Snake_init =
      Returns \<lparr>body = [Point 14 11, Point 15 11, Point 16 11], direction = Point (- 1) 0,
               pending_direction = Point (- 1) 0, grow_pending = 0\<rparr>"
    using move_nonempty [of Snake_init "Point 15 11" "[Point 16 11, Point 17 11]"]
    by (simp add: body_Snake_init) (simp add: Snake_init_def)
  ultimately show ?thesis
    using directions_never_reverse by blast
qed

subsection \<open>The tick\<close>

text \<open>
  Claim C1. From the three-cell snake at (14,11), (15,11), (16,11) heading left, nothing
  pending, score 0 and the food at (13,11), one tick of the running game returns, for
  every random draw, with the body (13,11), (14,11), (15,11), score 10, two cells of
  growth pending, the game not over, and the food on a cell that is not in the new body.
\<close>

theorem eating_tick:
  "\<exists>p. advance_tick r eating_state =
          Returns \<lparr>snake = \<lparr>body = [Point 13 11, Point 14 11, Point 15 11],
                            direction = Point (- 1) 0,
                            pending_direction = Point (- 1) 0,
                            grow_pending = 2\<rparr>,
                   food = \<lparr>position = p\<rparr>,
                   score = 10, game_over = False, paused = False\<rparr>
      \<and> p \<notin> set [Point 13 11, Point 14 11, Point 15 11]"
proof -
  let ?b = "[Point 13 11, Point 14 11, Point 15 11]"
  have "Point 0 0 \<notin> set ?b" by simp
  with in_grid_origin obtain p where p: "random_position r ?b = Inr p"
    using random_position_succeeds by blast
  then have "p \<notin> set ?b" using random_position_free by blast
  moreover have "advance_tick r eating_state =
          Returns \<lparr>snake = \<lparr>body = ?b,
                            direction = Point (- 1) 0,
                            pending_direction = Point (- 1) 0,
                            grow_pending = 2\<rparr>,
                   food = \<lparr>position = p\<rparr>,
                   score = 10, game_over = False, paused = False\<rparr>"
    using p
    by (simp add: advance_tick_def update_def eating_state_def move_def head_def pop_def
        hits_self_def grow_def relocate_def GRID_WIDTH_def GRID_HEIGHT_def Let_def)
  ultimately show ?thesis by blast
qed

text \<open>
  Claim C4. In a running game whose moved head is off the grid, the tick sets
  \<open>game_over\<close> and changes nothing else after the move: the food and the score are those
  before the tick, and the snake is the one \<open>move\<close> returned, its \<open>grow_pending\<close>
  included (no growth is added and the body is not tested).
\<close>

theorem wall_collision_tick:
  assumes "\<not> game_over g" and "\<not> paused g"
    and "move (snake g) = Returns s" and "head s = Inr h"
    and "\<not> in_grid h"
  shows "advance_tick r g = Returns (g\<lparr>snake := s, game_over := True\<rparr>)
       \<and> food (g\<lparr>snake := s, game_over := True\<rparr>) = food g
       \<and> score (g\<lparr>snake := s, game_over := True\<rparr>) = score g
       \<and> grow_pending (snake (g\<lparr>snake := s, game_over := True\<rparr>)) = grow_pending s"
  using assms by (simp add: advance_tick_def update_def in_grid_def Let_def)

theorem wall_collision_tick_witness:
  "\<not> game_over wall_state \<and> \<not> paused wall_state
   \<and> move (snake wall_state) =
       Returns \<lparr>body = [Point (- 1) 11, Point 0 11, Point 1 11, Point 2 11],
                direction = Point (- 1) 0, pending_direction = Point (- 1) 0,
                grow_pending = 0\<rparr>
   \<and> \<not> in_grid (Point (- 1) 11)
   \<and> advance_tick 0 wall_state =
       Returns \<lparr>snake = \<lparr>body = [Point (- 1) 11, Point 0 11, Point 1 11, Point 2 11],
                         direction = Point (- 1) 0, pending_direction = Point (- 1) 0,
                         grow_pending = 0\<rparr>,
                food = \<lparr>position = Point 5 5\<rparr>,
                score = 20, game_over = True, paused = False\<rparr>"
proof -
  let ?s = "\<lparr>body = [Point (- 1) 11, Point 0 11, Point 1 11, Point 2 11],
             direction = Point (- 1) 0, pending_direction = Point (- 1) 0,
             grow_pending = 0\<rparr>"
  have a: "\<not> game_over wall_state" and b: "\<not> paused wall_state"
    by (simp_all add: wall_state_def)
  have c: "move (snake wall_state) = Returns ?s"
    by (simp add: wall_state_def move_def head_def Let_def)
  have d: "head ?s = Inr (Point (- 1) 11)" by (simp add: head_def)
  have e: "\<not> in_grid (Point (- 1) 11)" by (simp add: in_grid_def)
  from wall_collision_tick [OF a b c d e, of 0] a b c e show ?thesis
    by (simp add: wall_state_def)
qed

text \<open>
  Claim C6. While the game is paused or over, the tick returns the state it was given:
  snake, food and score are untouched.
\<close>

theorem advance_tick_sticky:
  assumes "paused g \<or> game_over g"
  shows "advance_tick r g = Returns g"
  using assms by (auto simp: advance_tick_def)

theorem advance_tick_sticky_witness:
  "advance_tick 0 (eating_state\<lparr>paused := True\<rparr>) = Returns (eating_state\<lparr>paused := True\<rparr>)
   \<and> advance_tick 0 (eating_state\<lparr>game_over := True\<rparr>) = Returns (eating_state\<lparr>game_over := True\<rparr>)"
  using advance_tick_sticky [of "eating_state\<lparr>paused := True\<rparr>" 0]
    advance_tick_sticky [of "eating_state\<lparr>game_over := True\<rparr>" 0]
  by simp

subsection \<open>The tick on a full grid\<close>

lemma set_serpentine_column:
  "set (serpentine_column i) = {p. x p = i \<and> 0 \<le> y p \<and> y p < GRID_HEIGHT}"
proof -
  have "p \<in> set (serpentine_column i) \<longleftrightarrow> x p = i \<and> 0 \<le> y p \<and> y p < GRID_HEIGHT" for p
    by (cases p) (auto simp: serpentine_column_def)
  then show ?thesis by blast
qed

lemma set_crowded_body: "set crowded_body = {p. in_grid p \<and> p \<noteq> Point 0 0}"
proof -
  have "p \<in> set crowded_body \<longleftrightarrow> in_grid p \<and> p \<noteq> Point 0 0" for p
  proof (cases p)
    case (Point a b)
    then show ?thesis
      by (auto simp: crowded_body_def set_serpentine_column in_grid_def GRID_WIDTH_def)
  qed
  then show ?thesis by blast
qed

lemma crowded_body_head:
  "crowded_body = Point 0 1 # tl crowded_body"
  by (simp add: crowded_body_def GRID_HEIGHT_def upto_rec1)

lemma crowded_covers_grid: "\<forall>c. in_grid c \<longrightarrow> c \<in> set (Point 0 0 # crowded_body)"
  by (auto simp: set_crowded_body)

text \<open>The grid-filling body is a snake: no cell occurs twice.\<close>

lemma distinct_serpentine_column: "distinct (serpentine_column i)"
  by (simp add: serpentine_column_def distinct_map inj_on_def)

lemma distinct_crowded: "distinct (Point 0 0 # crowded_body)"
proof -
  have "distinct (map (Point 0) [1..GRID_HEIGHT - 1])"
    by (simp add: distinct_map inj_on_def)
  moreover have "distinct (concat (map serpentine_column [1..GRID_WIDTH - 1]))"
  proof (rule distinct_concat)
    have "inj_on serpentine_column {1..GRID_WIDTH - 1}"
    proof (rule inj_onI)
      fix i j assume eq: "serpentine_column i = serpentine_column j"
      have "Point i 0 \<in> set (serpentine_column i)"
        by (simp add: set_serpentine_column GRID_HEIGHT_def)
      then have "Point i 0 \<in> set (serpentine_column j)"
        by (simp only: eq)
      then show "i = j" by (simp add: set_serpentine_column)
    qed
    then show "distinct (map serpentine_column [1..GRID_WIDTH - 1])"
      by (simp add: distinct_map)
  next
    show "distinct ys" if "ys \<in> set (map serpentine_column [1..GRID_WIDTH - 1])" for ys
      using that by (auto simp: distinct_serpentine_column)
  next
    show "set ys \<inter> set zs = {}"
      if "ys \<in> set (map serpentine_column [1..GRID_WIDTH - 1])"
        "zs \<in> set (map serpentine_column [1..GRID_WIDTH - 1])" "ys \<noteq> zs" for ys zs
      using that by (auto simp: set_serpentine_column)
  qed
  moreover have "set (map (Point 0) [1..GRID_HEIGHT - 1])
      \<inter> set (concat (map serpentine_column [1..GRID_WIDTH - 1])) = {}"
    by (auto simp: set_serpentine_column)
  ultimately have "distinct crowded_body" by (simp add: crowded_body_def)
  then show ?thesis by (simp add: set_crowded_body)
qed

text \<open>
  When the moved body covers the grid and the head is on the food, the pool of
  \<^verbatim>\<open>random.choice\<close> is empty: its \<^verbatim>\<open>IndexError\<close> leaves \<open>update\<close> after the growth and
  the score were booked, with the food where it was.
\<close>

lemma update_no_free_cell:
  assumes "move (snake g) = Returns s" and "head s = Inr h" and "in_grid h"
    and "hits_self s = Inr False" and "h = position (food g)"
    and "\<forall>c. in_grid c \<longrightarrow> c \<in> set (body s)"
  shows "update r g = Raises IndexError (g\<lparr>snake := grow 2 s, score := score g + 10\<rparr>)"
proof -
  have "random_position r (body (grow 2 s)) = Inl IndexError"
    using assms(6) by (simp add: random_position_full grow_def)
  with assms(1-5) show ?thesis
    by (simp add: update_def relocate_def in_grid_def Let_def)
qed

lemma move_crowded:
  "move (snake crowded_state) =
     Returns \<lparr>body = Point 0 0 # crowded_body, direction = Point 0 (- 1),
              pending_direction = Point 0 (- 1), grow_pending = 1\<rparr>"
proof -
  have "body (snake crowded_state) = Point 0 1 # tl crowded_body"
    using crowded_body_head by (simp add: crowded_state_def)
  from move_nonempty [OF this] show ?thesis
    by (simp add: crowded_state_def crowded_body_head [symmetric])
qed

lemma advance_tick_crowded:
  "advance_tick r crowded_state =
     Raises IndexError
       (crowded_state\<lparr>snake := \<lparr>body = Point 0 0 # crowded_body, direction = Point 0 (- 1),
                                 pending_direction = Point 0 (- 1), grow_pending = 3\<rparr>,
                       score := 3300\<rparr>)"
proof -
  let ?s = "\<lparr>body = Point 0 0 # crowded_body, direction = Point 0 (- 1),
              pending_direction = Point 0 (- 1), grow_pending = 1\<rparr>"
  have "head ?s = Inr (Point 0 0)" by (simp add: head_def)
  moreover have "hits_self ?s = Inr False"
    by (simp add: hits_self_def head_def set_crowded_body)
  moreover have "Point 0 0 = position (food crowded_state)"
    by (simp add: crowded_state_def)
  moreover have "\<forall>c. in_grid c \<longrightarrow> c \<in> set (body ?s)"
    using crowded_covers_grid by simp
  ultimately have "update r crowded_state =
      Raises IndexError (crowded_state\<lparr>snake := grow 2 ?s, score := score crowded_state + 10\<rparr>)"
    using move_crowded in_grid_origin by (intro update_no_free_cell)
  then show ?thesis
    by (simp add: advance_tick_def grow_def crowded_state_def)
qed

text \<open>
  Claim C2 as stated fails on the grid-filling snake: the tick raises \<^verbatim>\<open>IndexError\<close>, and
  the game it leaves is not over.
\<close>

theorem no_free_cell_not_over:
  "advance_tick 0 crowded_state =
     Raises IndexError
       (crowded_state\<lparr>snake := \<lparr>body = Point 0 0 # crowded_body, direction = Point 0 (- 1),
                                 pending_direction = Point 0 (- 1), grow_pending = 3\<rparr>,
                       score := 3300\<rparr>)
   \<and> \<not> game_over
       (crowded_state\<lparr>snake := \<lparr>body = Point 0 0 # crowded_body, direction = Point 0 (- 1),
                                 pending_direction = Point 0 (- 1), grow_pending = 3\<rparr>,
                       score := 3300\<rparr>)"
  by (simp add: advance_tick_crowded) (simp add: crowded_state_def)

text \<open>
  Claim C2, as the code has it. When every cell of the grid is occupied, \<open>relocate\<close>
  raises the \<^verbatim>\<open>IndexError\<close> of \<^verbatim>\<open>random.choice\<close> on its empty pool and leaves the food
  where it was. Nothing catches it: the tick of a running game that reaches \<open>relocate\<close>
  with such a body raises the same error, with the moved body intact, two cells of growth
  and ten points booked, the food unmoved and \<open>game_over\<close> still false.
\<close>

theorem no_free_cell_raises:
  assumes "\<forall>c. in_grid c \<longrightarrow> c \<in> set occupied"
  shows "relocate r occupied f = Raises IndexError f
       \<and> (\<not> game_over g \<and> \<not> paused g \<and> move (snake g) = Returns s \<and> body s = occupied
            \<and> head s = Inr h \<and> in_grid h \<and> hits_self s = Inr False
            \<and> h = position (food g) \<longrightarrow>
          advance_tick r g = Raises IndexError (g\<lparr>snake := grow 2 s, score := score g + 10\<rparr>)
          \<and> \<not> game_over (g\<lparr>snake := grow 2 s, score := score g + 10\<rparr>)
          \<and> food (g\<lparr>snake := grow 2 s, score := score g + 10\<rparr>) = food g
          \<and> body (snake (g\<lparr>snake := grow 2 s, score := score g + 10\<rparr>)) = body s)"
proof -
  have "relocate r occupied f = Raises IndexError f"
    using assms by (simp add: relocate_def random_position_full)
  moreover have "advance_tick r g =
      Raises IndexError (g\<lparr>snake := grow 2 s, score := score g + 10\<rparr>)
          \<and> \<not> game_over (g\<lparr>snake := grow 2 s, score := score g + 10\<rparr>)
          \<and> food (g\<lparr>snake := grow 2 s, score := score g + 10\<rparr>) = food g
          \<and> body (snake (g\<lparr>snake := grow 2 s, score := score g + 10\<rparr>)) = body s"
    if "\<not> game_over g" "\<not> paused g" "move (snake g) = Returns s" "body s = occupied"
      "head s = Inr h" "in_grid h" "hits_self s = Inr False" "h = position (food g)"
    using that assms by (simp add: advance_tick_def update_no_free_cell) (simp add: grow_def)
  ultimately show ?thesis by blast
qed

theorem no_free_cell_raises_witness:
  "relocate 1 (Point 0 0 # crowded_body) \<lparr>position = Point 0 0\<rparr>
       = Raises IndexError \<lparr>position = Point 0 0\<rparr>
   \<and> advance_tick 1 crowded_state =
       Raises IndexError
        \<lparr>snake = \<lparr>body = Point 0 0 # crowded_body, direction = Point 0 (- 1),
                   pending_direction = Point 0 (- 1), grow_pending = 3\<rparr>,
         food = \<lparr>position = Point 0 0\<rparr>,
         score = 3300, game_over = False, paused = False\<rparr>"
proof -
  let ?s = "\<lparr>body = Point 0 0 # crowded_body, direction = Point 0 (- 1),
              pending_direction = Point 0 (- 1), grow_pending = 1\<rparr>"
  have "\<not> game_over crowded_state" and "\<not> paused crowded_state"
    and "Point 0 0 = position (food crowded_state)"
    by (simp_all add: crowded_state_def)
  moreover have "body ?s = Point 0 0 # crowded_body" by simp
  moreover have "head ?s = Inr (Point 0 0)" by (simp add: head_def)
  moreover have "hits_self ?s = Inr False"
    by (simp add: hits_self_def head_def set_crowded_body)
  moreover note move_crowded in_grid_origin
  ultimately have "advance_tick 1 crowded_state =
      Raises IndexError (crowded_state\<lparr>snake := grow 2 ?s, score := score crowded_state + 10\<rparr>)"
    and "relocate 1 (Point 0 0 # crowded_body) \<lparr>position = Point 0 0\<rparr>
       = Raises IndexError \<lparr>position = Point 0 0\<rparr>"
    using no_free_cell_raises [OF crowded_covers_grid, of 1 "\<lparr>position = Point 0 0\<rparr>"
        crowded_state ?s "Point 0 0"]
    by blast+
  then show ?thesis
    by (simp add: grow_def crowded_state_def)
qed

subsection \<open>Reset\<close>

text \<open>
  Claim C8. From any state, \<open>reset\<close> returns with score 0, the game neither over nor
  paused, the snake as constructed (three cells, heading left) and the food on a cell
  outside the snake's body.
\<close>

theorem reset_fresh:
  "\<exists>p. reset r g = Returns \<lparr>snake = Snake_init, food = \<lparr>position = p\<rparr>,
                            score = 0, game_over = False, paused = False\<rparr>
      \<and> p \<notin> set (body Snake_init)
      \<and> body Snake_init = [Point 15 11, Point 16 11, Point 17 11]
      \<and> direction Snake_init = Point (- 1) 0
      \<and> pending_direction Snake_init = Point (- 1) 0
      \<and> grow_pending Snake_init = 0"
proof -
  have "Point 0 0 \<notin> set (body Snake_init)" by (simp add: body_Snake_init)
  with in_grid_origin obtain p where p: "random_position r (body Snake_init) = Inr p"
    using random_position_succeeds by blast
  then have "p \<notin> set (body Snake_init)" using random_position_free by blast
  moreover from p have "reset r g = Returns \<lparr>snake = Snake_init, food = \<lparr>position = p\<rparr>,
                            score = 0, game_over = False, paused = False\<rparr>"
    by (simp add: reset_def Food_init_def Let_def)
  moreover have "direction Snake_init = Point (- 1) 0"
    and "pending_direction Snake_init = Point (- 1) 0"
    and "grow_pending Snake_init = 0"
    by (simp_all add: Snake_init_def)
  ultimately show ?thesis
    using body_Snake_init by blast
qed

end
